theory Spec2Isabelle
  imports Complex_Main
begin

section \<open>qflow: the fan-out proxy of package qflow\<close>

text \<open>
  The package has four functions of interest: \<open>HTTPWorker\<close> (the dispatch loop of one
  worker), \<open>HandleRequest\<close> (the ingress handler), \<open>ListenAndServe\<close> (startup) and
  \<open>isValidURL\<close> (host validation), plus \<open>ParseConfig\<close>. Goroutines communicate over
  channels. The embedding is sequential: each function is a state transformer on a
  \<open>world\<close> holding the metrics, the values sent on every channel and the outbound HTTP
  calls made. What the Go standard library and the network answer is an explicit
  parameter of each function. \<open>ReadDiskChannel\<close>, which hands the records of the durable
  queue to the worker channel one by one, and the package \<open>durable\<close> itself are outside
  this development: a worker is run on the list of records its channel delivers.
\<close>

subsection \<open>Go integer arithmetic\<close>

text \<open>Go's \<open>/\<close> and \<open>%\<close> on integers truncate towards zero; a zero divisor panics.\<close>

definition go_div :: "int \<Rightarrow> int \<Rightarrow> int" where
  "go_div a b = sgn a * sgn b * (\<bar>a\<bar> div \<bar>b\<bar>)"

definition go_rem :: "int \<Rightarrow> int \<Rightarrow> int" where
  "go_rem a b = a - go_div a b * b"

subsection \<open>Data\<close>

type_synonym bytes = "char list"

text \<open>\<open>durable.Request\<close>, as the package builds and reads it: \<open>Method\<close>, \<open>URL\<close>, \<open>Body\<close>.\<close>

record Request =
  Method :: string
  URL :: string
  Body :: bytes

text \<open>
  A channel is a reference. The store \<open>chans\<close> of the world maps a channel id to the
  values sent on that channel so far, oldest first.
\<close>

type_synonym chan_id = nat

text \<open>\<open>type Endpoint struct\<close>; \<open>Timeout\<close> is a \<open>time.Duration\<close>, in nanoseconds.\<close>

record Endpoint =
  Name :: string
  Hosts :: "string list"
  Writer :: chan_id
  DurableChannel :: chan_id
  WorkerChannel :: chan_id
  Timeout :: int

text \<open>\<open>type Handler struct\<close>.\<close>

record Handler =
  Endpoints :: "Endpoint list"

text \<open>The request that \<open>http.NewRequest\<close> builds and \<open>client.Do\<close> sends.\<close>

record ProxyReq =
  pr_Method :: string
  pr_URL :: string
  pr_Body :: bytes

text \<open>
  The package-level metrics (the \<open>var\<close> block), the channel store, the outbound calls
  made through \<open>client.Do\<close>, and for every response body closed the number of bytes
  copied to \<open>ioutil.Discard\<close> before. A histogram is the list of its observations.
\<close>

record world =
  requests :: nat
  failures :: nat
  endpointRequests :: "string \<Rightarrow> nat"
  endpointFailures :: "string \<Rightarrow> nat"
  endpointLatencyHistogram :: "string \<Rightarrow> int list"
  chans :: "Request list list"
  dispatched :: "ProxyReq list"
  discarded :: "nat list"

text \<open>
  A send \<open>c <- v\<close> completes when the other side takes the value; otherwise, and on a
  channel that was never made (a nil channel), it blocks for ever. Which channels are
  being received from is the parameter \<open>ready\<close>. \<open>None\<close> is the blocked send.
\<close>

definition chan_send :: "(chan_id \<Rightarrow> bool) \<Rightarrow> chan_id \<Rightarrow> Request \<Rightarrow> world \<Rightarrow> world option" where
  "chan_send ready c v w =
     (if c < length (chans w) \<and> ready c
      then Some (w\<lparr>chans := (chans w)[c := chans w ! c @ [v]]\<rparr>)
      else None)"

subsection \<open>HTTPWorker\<close>

text \<open>
  What \<open>client.Do\<close> returns: a transport error, or a response with its status code and
  body.
\<close>

datatype do_result = TransportError string | Response nat bytes

text \<open>
  One value received from \<open>endpoint.WorkerChannel\<close>, with what the network answers if
  the record is dispatched and the nanoseconds \<open>time.Since(start)\<close> then reports.
\<close>

record delivery =
  d_req :: Request
  d_do :: do_result
  d_ns :: int

text \<open>
  Where a goroutine stands after the values it was given: \<open>Waiting\<close> at the receive at
  the top of its loop, \<open>Blocked\<close> for ever in a send (holding the record it was sending),
  or \<open>Panicked\<close>.
\<close>

datatype worker_state = Waiting world | Blocked Request world | Panicked string world

fun world_of :: "worker_state \<Rightarrow> world" where
  "world_of (Waiting w) = w"
| "world_of (Blocked r w) = w"
| "world_of (Panicked m w) = w"

text \<open>\<open>endpoint.Hosts[count%sizeEndpoints]\<close>: the remainder panics on a zero divisor,
  the index on a value out of range.\<close>

definition pick_host :: "string list \<Rightarrow> int \<Rightarrow> string + string" where
  "pick_host hosts count =
     (let sizeEndpoints = int (length hosts) in
      if sizeEndpoints = 0 then Inl ''runtime error: integer divide by zero''
      else let i = go_rem count sizeEndpoints in
        if i < 0 \<or> sizeEndpoints \<le> i then Inl ''runtime error: index out of range''
        else Inr (hosts ! nat i))"

text \<open>
  The body of the \<open>for\<close> loop of \<open>HTTPWorker\<close>, from the record received to the next
  \<open>continue\<close> or the end of the body. \<open>NewRequest\<close> is \<open>http.NewRequest\<close>. The body has
  no assignment to \<open>count\<close>.
\<close>

definition HTTPWorker_body ::
  "(string \<Rightarrow> string \<Rightarrow> bytes \<Rightarrow> string + ProxyReq) \<Rightarrow> (chan_id \<Rightarrow> bool) \<Rightarrow>
   Endpoint \<Rightarrow> int \<Rightarrow> delivery \<Rightarrow> world \<Rightarrow> worker_state" where
  "HTTPWorker_body NewRequest ready endpoint count d w =
     (let req = d_req d in
      case pick_host (Hosts endpoint) count of
        Inl msg \<Rightarrow> Panicked msg w
      | Inr host \<Rightarrow>
         (let url = host @ URL req in
          case NewRequest (Method req) url (Body req) of
            Inl err \<Rightarrow> Waiting w
          | Inr proxyReq \<Rightarrow>
             (let w1 = w\<lparr>endpointRequests := (endpointRequests w)
                          (Name endpoint := endpointRequests w (Name endpoint) + 1)\<rparr>;
                  w2 = w1\<lparr>dispatched := dispatched w1 @ [proxyReq]\<rparr>;
                  elasped = go_div (d_ns d) 1000;
                  w3 = w2\<lparr>endpointLatencyHistogram := (endpointLatencyHistogram w2)
                          (Name endpoint := endpointLatencyHistogram w2 (Name endpoint) @ [elasped])\<rparr>
              in case d_do d of
                   TransportError err \<Rightarrow>
                     (let w4 = w3\<lparr>endpointFailures := (endpointFailures w3)
                                  (Name endpoint := endpointFailures w3 (Name endpoint) + 1)\<rparr>
                      in case chan_send ready (Writer endpoint) req w4 of
                           None \<Rightarrow> Blocked req w4
                         | Some w5 \<Rightarrow> Waiting w5)
                 | Response status body \<Rightarrow>
                     Waiting (w3\<lparr>discarded := discarded w3 @ [length body]\<rparr>))))"

text \<open>The \<open>for\<close> loop, run on the values the worker channel delivers.\<close>

fun HTTPWorker_loop ::
  "(string \<Rightarrow> string \<Rightarrow> bytes \<Rightarrow> string + ProxyReq) \<Rightarrow> (chan_id \<Rightarrow> bool) \<Rightarrow>
   Endpoint \<Rightarrow> int \<Rightarrow> delivery list \<Rightarrow> world \<Rightarrow> worker_state" where
  "HTTPWorker_loop NewRequest ready endpoint count [] w = Waiting w"
| "HTTPWorker_loop NewRequest ready endpoint count (d # ds) w =
     (case HTTPWorker_body NewRequest ready endpoint count d w of
        Waiting w' \<Rightarrow> HTTPWorker_loop NewRequest ready endpoint count ds w'
      | Blocked r w' \<Rightarrow> Blocked r w'
      | Panicked m w' \<Rightarrow> Panicked m w')"

text \<open>\<open>func HTTPWorker\<close>: \<open>var count int\<close> starts at zero.\<close>

definition HTTPWorker ::
  "(string \<Rightarrow> string \<Rightarrow> bytes \<Rightarrow> string + ProxyReq) \<Rightarrow> (chan_id \<Rightarrow> bool) \<Rightarrow>
   Endpoint \<Rightarrow> delivery list \<Rightarrow> world \<Rightarrow> worker_state" where
  "HTTPWorker NewRequest ready endpoint ds w = HTTPWorker_loop NewRequest ready endpoint 0 ds w"

subsection \<open>HandleRequest\<close>

text \<open>
  The ingress request as the handler reads it: \<open>req.Method\<close>, \<open>req.URL.String()\<close>, and
  the two values \<open>ioutil.ReadAll(req.Body)\<close> returns (the bytes read and the error, if
  any).
\<close>

record IngressRequest =
  in_Method :: string
  in_URL :: string
  in_ReadAll :: "bytes \<times> string option"

text \<open>What the client sees: a status and a body, or nothing while the handler is blocked
  in a send.\<close>

datatype handled = Replied nat string world | NoReply world

datatype progress = Stuck world | Done world

text \<open>\<open>for _, endpoint := range h.Endpoints { endpoint.Writer <- r }\<close>\<close>

fun fan_out :: "(chan_id \<Rightarrow> bool) \<Rightarrow> Endpoint list \<Rightarrow> Request \<Rightarrow> world \<Rightarrow> progress" where
  "fan_out ready [] r w = Done w"
| "fan_out ready (endpoint # es) r w =
     (case chan_send ready (Writer endpoint) r w of
        None \<Rightarrow> Stuck w
      | Some w' \<Rightarrow> fan_out ready es r w')"

text \<open>\<open>http.Error\<close> writes the message and a newline.\<close>

definition HandleRequest :: "(chan_id \<Rightarrow> bool) \<Rightarrow> Handler \<Rightarrow> IngressRequest \<Rightarrow> world \<Rightarrow> handled" where
  "HandleRequest ready h req w =
     (let w1 = w\<lparr>requests := requests w + 1\<rparr> in
      case in_ReadAll req of
        (body, Some err) \<Rightarrow>
          Replied 400 (''can't read body'' @ [CHR 0x0A]) (w1\<lparr>failures := failures w1 + 1\<rparr>)
      | (body, None) \<Rightarrow>
          (let r = \<lparr>Method = in_Method req, URL = in_URL req, Body = body\<rparr> in
           case fan_out ready (Endpoints h) r w1 of
             Stuck w2 \<Rightarrow> NoReply w2
           | Done w2 \<Rightarrow> Replied 204 [] w2))"

subsection \<open>isValidURL\<close>

text \<open>
  Of the \<open>*url.URL\<close> that \<open>url.ParseRequestURI\<close> returns the package reads the field
  \<open>Scheme\<close> only. The parser returns a pointer and an error; it is a parameter.
\<close>

record ParsedURL =
  Scheme :: string
  Rest :: string

text \<open>
  \<open>func isValidURL\<close>: \<open>url.Scheme\<close> is read first, the error is looked at afterwards.
  Reading a field through a nil pointer panics (\<open>Inl\<close>).
\<close>

definition isValidURL :: "(string \<Rightarrow> ParsedURL option \<times> string option) \<Rightarrow> string \<Rightarrow> string + bool" where
  "isValidURL ParseRequestURI s =
     (case ParseRequestURI s of (url, err) \<Rightarrow>
        (case url of
           None \<Rightarrow> Inl ''runtime error: invalid memory address or nil pointer dereference''
         | Some u \<Rightarrow>
             if Scheme u \<noteq> ''http'' \<and> Scheme u \<noteq> ''https'' then Inr False
             else if err \<noteq> None then Inr False
             else Inr True))"

subsection \<open>The front of net/url's parser\<close>

text \<open>
  For evaluation at concrete hosts: Go's \<open>url.ParseRequestURI\<close> up to the point where
  the scheme is split off and the rest is classified. Parsing of the authority and of
  the path, which can fail too, is left out: the model is exact on strings whose
  authority and path are well formed, and accepts strings such as \<open>http://h/%zz\<close> or
  \<open>http://[::1\<close> for which Go returns an error. It is applied below only to hosts with a
  well-formed authority and path and to \<open>example.com\<close>; nothing is proved from it about
  other hosts. The general facts about \<open>isValidURL\<close> hold for any parser.
\<close>

definition is_letter :: "char \<Rightarrow> bool" where
  "is_letter c = (let n = (of_char c :: nat) in (97 \<le> n \<and> n \<le> 122) \<or> (65 \<le> n \<and> n \<le> 90))"

definition is_scheme_punct :: "char \<Rightarrow> bool" where
  "is_scheme_punct c = (let n = (of_char c :: nat) in (48 \<le> n \<and> n \<le> 57) \<or> n = 43 \<or> n = 45 \<or> n = 46)"

fun getScheme_from :: "string \<Rightarrow> string \<Rightarrow> string \<Rightarrow> string + (string \<times> string)" where
  "getScheme_from rawURL pre [] = Inr ([], rawURL)"
| "getScheme_from rawURL pre (c # cs) =
     (if is_letter c then getScheme_from rawURL (pre @ [c]) cs
      else if is_scheme_punct c then
        (if pre = [] then Inr ([], rawURL) else getScheme_from rawURL (pre @ [c]) cs)
      else if c = CHR '':'' then
        (if pre = [] then Inl ''missing protocol scheme'' else Inr (pre, cs))
      else Inr ([], rawURL))"

definition getScheme :: "string \<Rightarrow> string + (string \<times> string)" where
  "getScheme rawURL = getScheme_from rawURL [] rawURL"

definition ToLower :: "string \<Rightarrow> string" where
  "ToLower s = map (\<lambda>c. let n = (of_char c :: nat) in
                          if 65 \<le> n \<and> n \<le> 90 then char_of (n + 32) else c) s"

definition stringContainsCTLByte :: "string \<Rightarrow> bool" where
  "stringContainsCTLByte s = (\<exists>c \<in> set s. (of_char c :: nat) < 32 \<or> (of_char c :: nat) = 127)"

definition ParseRequestURI_front :: "string \<Rightarrow> ParsedURL option \<times> string option" where
  "ParseRequestURI_front rawURL =
     (if stringContainsCTLByte rawURL then (None, Some ''net/url: invalid control character in URL'')
      else if rawURL = [] then (None, Some ''empty url'')
      else if rawURL = ''*'' then (Some \<lparr>Scheme = [], Rest = ''*''\<rparr>, None)
      else case getScheme rawURL of
             Inl e \<Rightarrow> (None, Some e)
           | Inr (scheme, rest) \<Rightarrow>
               (let scheme = ToLower scheme;
                    rest = takeWhile (\<lambda>c. c \<noteq> CHR ''?'') rest
                in if take 1 rest \<noteq> ''/'' then
                     (if scheme \<noteq> [] then (Some \<lparr>Scheme = scheme, Rest = rest\<rparr>, None)
                      else (None, Some ''invalid URI for request''))
                   else (Some \<lparr>Scheme = scheme, Rest = rest\<rparr>, None)))"

subsection \<open>Configuration\<close>

text \<open>
  \<open>type Config struct\<close>. The declaration in the source has \<open>HTTP.Timeout\<close> and
  \<open>Endpoints\<close> (\<open>Name\<close>, \<open>Hosts\<close>).

  Modelled from the spec: the fields \<open>HTTP.Concurrency\<close> and \<open>Queue.MaxMessageSize\<close>,
  which \<open>ListenAndServe\<close> reads, are not in the declaration given; they are the options
  \<open>http.concurrency\<close> (an integer) and \<open>queue.max_message_size\<close> (bytes) of the spec.
\<close>

record ConfigEndpoint =
  ce_Name :: string
  ce_Hosts :: "string list"

record Config =
  HTTP_Timeout :: int
  HTTP_Concurrency :: int
  Queue_MaxMessageSize :: int
  cfg_Endpoints :: "ConfigEndpoint list"

text \<open>
  \<open>func ParseConfig\<close>: \<open>ioutil.ReadFile\<close> and \<open>yaml.Unmarshal\<close> are parameters; the value
  is the pair the function returns (\<open>Inl\<close> is \<open>nil, err\<close>).
\<close>

definition ParseConfig ::
  "(string \<Rightarrow> string + bytes) \<Rightarrow> (bytes \<Rightarrow> string + Config) \<Rightarrow> string \<Rightarrow> string + Config" where
  "ParseConfig ReadFile Unmarshal filename =
     (case ReadFile filename of
        Inl err \<Rightarrow> Inl err
      | Inr data \<Rightarrow>
          (case Unmarshal data of
             Inl err \<Rightarrow> Inl err
           | Inr config \<Rightarrow> Inr config))"

subsection \<open>ListenAndServe\<close>

text \<open>\<open>time.Second\<close> in nanoseconds, and \<open>Duration.Seconds\<close>: whole seconds plus the
  remaining nanoseconds over \<open>1e9\<close>. The value is a float64 in Go and an exact rational
  here; the function only compares it with zero, and every summand is exact in float64
  or a correctly rounded non-zero quotient of the same sign, so the comparison agrees.\<close>

definition Second :: int where
  "Second = 1000000000"

definition Seconds :: "int \<Rightarrow> rat" where
  "Seconds d = of_int (go_div d Second) + of_int (go_rem d Second) / 1000000000"

text \<open>\<open>durable.Config\<close>, as \<open>ListenAndServe\<close> fills it.\<close>

record durable_Config =
  dq_Name :: string
  DataPath :: string
  MaxBytesPerFile :: int
  MinMsgSize :: int
  MaxMsgSize :: int
  SyncEvery :: int
  SyncTimeout :: int

text \<open>What startup sets up for one endpoint: the \<open>Endpoint\<close> value, the configuration
  handed to \<open>durable.Channel\<close>, and the number of \<open>HTTPWorker\<close> goroutines started.\<close>

record pipeline =
  p_Endpoint :: Endpoint
  p_Queue :: durable_Config
  p_Workers :: nat

text \<open>What the operating system answers at startup: whether \<open>os.Stat\<close> reports the data
  directory missing, the error of \<open>os.MkdirAll\<close>, and the error \<open>http.ListenAndServe\<close>
  returns (\<open>None\<close> while it keeps serving).\<close>

record startup_env =
  dir_missing :: bool
  mkdir_error :: "string option"
  listen_error :: "string option"

text \<open>How startup ends: \<open>log.Fatal\<close> with its message (exit status 1), a panic, or the
  server serving with its handler and pipelines.\<close>

datatype startup = Fatal string | Crashed string | Serving Handler "pipeline list" world

text \<open>\<open>make(chan ...)\<close>: a fresh channel with nothing sent.\<close>

definition make_chan :: "world \<Rightarrow> chan_id \<times> world" where
  "make_chan w = (length (chans w), w\<lparr>chans := chans w @ [[]]\<rparr>)"

text \<open>\<open>for _, host := range endpoint.Hosts { if !isValidURL(host) { log.Fatalf(...) } }\<close>;
  \<open>None\<close> when the loop ends.\<close>

fun check_hosts ::
  "(string \<Rightarrow> ParsedURL option \<times> string option) \<Rightarrow> string \<Rightarrow> string list \<Rightarrow> startup option" where
  "check_hosts parse name [] = None"
| "check_hosts parse name (host # hosts) =
     (case isValidURL parse host of
        Inl msg \<Rightarrow> Some (Crashed msg)
      | Inr False \<Rightarrow> Some (Fatal (''('' @ name @ '') ['' @ host @ ''] is not a valid endpoint url''))
      | Inr True \<Rightarrow> check_hosts parse name hosts)"

text \<open>
  The loop over \<open>config.Endpoints\<close>. \<open>make\<close> panics on a negative capacity.

  Modelled from the spec: \<open>durable.Channel\<close> is not in the source given; the spec makes
  it the durable queue between the inbox and a channel it returns. Only the making of
  that channel and the configuration passed are modelled.
\<close>

fun register_endpoints ::
  "(string \<Rightarrow> ParsedURL option \<times> string option) \<Rightarrow> int \<Rightarrow> int \<Rightarrow> int \<Rightarrow> string \<Rightarrow>
   ConfigEndpoint list \<Rightarrow> Endpoint list \<Rightarrow> pipeline list \<Rightarrow> world \<Rightarrow>
   startup + (Endpoint list \<times> pipeline list \<times> world)" where
  "register_endpoints parse timeout maxMsgSize concurrency dataDir [] ep ps w = Inr (ep, ps, w)"
| "register_endpoints parse timeout maxMsgSize concurrency dataDir (endpoint # rest) ep ps w =
     (case check_hosts parse (ce_Name endpoint) (ce_Hosts endpoint) of
        Some stop \<Rightarrow> Inl stop
      | None \<Rightarrow>
          (let (writer, w1) = make_chan w in
           if concurrency < 0 then Inl (Crashed ''makechan: size out of range'')
           else
             let (worker, w2) = make_chan w1;
                 cfg = \<lparr>dq_Name = ce_Name endpoint, DataPath = dataDir,
                        MaxBytesPerFile = 1024 * 1024 * 1024, MinMsgSize = 0,
                        MaxMsgSize = maxMsgSize, SyncEvery = 10000,
                        SyncTimeout = Second * 10\<rparr>;
                 (c, w3) = make_chan w2;
                 e = \<lparr>Name = ce_Name endpoint, Hosts = ce_Hosts endpoint, Writer = writer,
                      DurableChannel = c, WorkerChannel = worker, Timeout = timeout\<rparr>
             in register_endpoints parse timeout maxMsgSize concurrency dataDir rest
                  (ep @ [e])
                  (ps @ [\<lparr>p_Endpoint = e, p_Queue = cfg, p_Workers = nat concurrency\<rparr>])
                  w3))"

text \<open>\<open>func ListenAndServe\<close>.\<close>

definition ListenAndServe ::
  "(string \<Rightarrow> ParsedURL option \<times> string option) \<Rightarrow> startup_env \<Rightarrow>
   Config \<Rightarrow> string \<Rightarrow> string \<Rightarrow> world \<Rightarrow> startup" where
  "ListenAndServe parse env config addr dataDir w =
     (let timeout = HTTP_Timeout config;
          maxMsgSize = Queue_MaxMessageSize config;
          concurrency = HTTP_Concurrency config;
          timeout = (if Seconds timeout = 0 then 10 * Second else timeout);
          maxMsgSize = (if maxMsgSize = 0 then 1024 * 1024 * 10 else maxMsgSize);
          concurrency = (if concurrency = 0 then 25 else concurrency)
      in case (if dir_missing env then mkdir_error env else None) of
           Some err \<Rightarrow> Fatal err
         | None \<Rightarrow>
            (case register_endpoints parse timeout maxMsgSize concurrency dataDir
                    (cfg_Endpoints config) [] [] w of
               Inl stop \<Rightarrow> stop
             | Inr (ep, ps, w') \<Rightarrow>
                 (let handler = \<lparr>Endpoints = ep\<rparr> in
                  case listen_error env of
                    Some err \<Rightarrow> Fatal err
                  | None \<Rightarrow> Serving handler ps w')))"

subsection \<open>Concrete inputs\<close>

text \<open>Configurations, requests and answers of the network used to evaluate the
  functions: the scenarios of the specification.\<close>

definition world_init :: world where
  "world_init = \<lparr>requests = 0, failures = 0, endpointRequests = (\<lambda>name. 0),
                 endpointFailures = (\<lambda>name. 0), endpointLatencyHistogram = (\<lambda>name. []),
                 chans = [], dispatched = [], discarded = []\<rparr>"

definition env_ok :: startup_env where
  "env_ok = \<lparr>dir_missing = False, mkdir_error = None, listen_error = None\<rparr>"

definition env_no_dir :: startup_env where
  "env_no_dir = \<lparr>dir_missing = True, mkdir_error = Some ''mkdir data: permission denied'',
                  listen_error = None\<rparr>"

definition always_ready :: "chan_id \<Rightarrow> bool" where
  "always_ready c = True"

definition never_ready :: "chan_id \<Rightarrow> bool" where
  "never_ready c = False"

definition NewRequest_ok :: "string \<Rightarrow> string \<Rightarrow> bytes \<Rightarrow> string + ProxyReq" where
  "NewRequest_ok method url body = Inr \<lparr>pr_Method = method, pr_URL = url, pr_Body = body\<rparr>"

definition NewRequest_fails :: "string \<Rightarrow> string \<Rightarrow> bytes \<Rightarrow> string + ProxyReq" where
  "NewRequest_fails method url body = Inl ''net/http: invalid method''"

definition cfg_one :: Config where
  "cfg_one = \<lparr>HTTP_Timeout = 0, HTTP_Concurrency = 0, Queue_MaxMessageSize = 0,
              cfg_Endpoints = [\<lparr>ce_Name = ''a'', ce_Hosts = [''http://127.0.0.1:18080'']\<rparr>]\<rparr>"

definition cfg_two :: Config where
  "cfg_two = \<lparr>HTTP_Timeout = 5000000000, HTTP_Concurrency = 2, Queue_MaxMessageSize = 4,
              cfg_Endpoints = [\<lparr>ce_Name = ''a'', ce_Hosts = [''http://127.0.0.1:18080'']\<rparr>,
                               \<lparr>ce_Name = ''b'', ce_Hosts = [''https://127.0.0.1:18081'']\<rparr>]\<rparr>"

definition cfg_rr :: Config where
  "cfg_rr = \<lparr>HTTP_Timeout = 0, HTTP_Concurrency = 1, Queue_MaxMessageSize = 0,
             cfg_Endpoints = [\<lparr>ce_Name = ''a'',
                                ce_Hosts = [''http://h1'', ''http://h2'', ''http://h3'']\<rparr>]\<rparr>"

definition cfg_empty :: Config where
  "cfg_empty = \<lparr>HTTP_Timeout = 0, HTTP_Concurrency = 0, Queue_MaxMessageSize = 0,
                cfg_Endpoints = []\<rparr>"

definition cfg_bad :: Config where
  "cfg_bad = \<lparr>HTTP_Timeout = 0, HTTP_Concurrency = 0, Queue_MaxMessageSize = 0,
              cfg_Endpoints = [\<lparr>ce_Name = ''a'', ce_Hosts = [''example.com'']\<rparr>]\<rparr>"

definition post_x :: Request where
  "post_x = \<lparr>Method = ''POST'', URL = ''/ingest'', Body = ''x''\<rparr>"

definition ok_delivery :: delivery where
  "ok_delivery = \<lparr>d_req = post_x, d_do = Response 200 [], d_ns = 1500\<rparr>"

definition err_delivery :: delivery where
  "err_delivery = \<lparr>d_req = post_x, d_do = TransportError ''connection refused'', d_ns = 2999\<rparr>"

definition busy_delivery :: delivery where
  "busy_delivery = \<lparr>d_req = post_x, d_do = Response 503 ''busy'', d_ns = 1500\<rparr>"

definition post_hello :: IngressRequest where
  "post_hello = \<lparr>in_Method = ''POST'', in_URL = ''/ingest'', in_ReadAll = (''hello'', None)\<rparr>"

definition post_broken :: IngressRequest where
  "post_broken = \<lparr>in_Method = ''POST'', in_URL = ''/ingest'',
                   in_ReadAll = (''he'', Some ''unexpected EOF'')\<rparr>"

text \<open>What startup builds from \<open>cfg_one\<close> and from \<open>cfg_two\<close>.\<close>

definition endpoint_one :: Endpoint where
  "endpoint_one = \<lparr>Name = ''a'', Hosts = [''http://127.0.0.1:18080''], Writer = 0,
                   DurableChannel = 2, WorkerChannel = 1, Timeout = 10000000000\<rparr>"

definition pipeline_one :: pipeline where
  "pipeline_one = \<lparr>p_Endpoint = endpoint_one,
                   p_Queue = \<lparr>dq_Name = ''a'', DataPath = ''data'', MaxBytesPerFile = 1073741824,
                              MinMsgSize = 0, MaxMsgSize = 10485760, SyncEvery = 10000,
                              SyncTimeout = 10000000000\<rparr>,
                   p_Workers = 25\<rparr>"

definition world_one :: world where
  "world_one = world_init\<lparr>chans := [[], [], []]\<rparr>"

definition endpoint_rr :: Endpoint where
  "endpoint_rr = \<lparr>Name = ''a'', Hosts = [''http://h1'', ''http://h2'', ''http://h3''],
                  Writer = 0, DurableChannel = 2, WorkerChannel = 1, Timeout = 10000000000\<rparr>"

definition handler_two :: Handler where
  "handler_two = \<lparr>Endpoints =
     [\<lparr>Name = ''a'', Hosts = [''http://127.0.0.1:18080''], Writer = 0,
       DurableChannel = 2, WorkerChannel = 1, Timeout = 5000000000\<rparr>,
      \<lparr>Name = ''b'', Hosts = [''https://127.0.0.1:18081''], Writer = 3,
       DurableChannel = 5, WorkerChannel = 4, Timeout = 5000000000\<rparr>]\<rparr>"

definition pipelines_two :: "pipeline list" where
  "pipelines_two =
     [\<lparr>p_Endpoint = \<lparr>Name = ''a'', Hosts = [''http://127.0.0.1:18080''], Writer = 0,
                      DurableChannel = 2, WorkerChannel = 1, Timeout = 5000000000\<rparr>,
       p_Queue = \<lparr>dq_Name = ''a'', DataPath = ''data'', MaxBytesPerFile = 1073741824,
                  MinMsgSize = 0, MaxMsgSize = 4, SyncEvery = 10000,
                  SyncTimeout = 10000000000\<rparr>,
       p_Workers = 2\<rparr>,
      \<lparr>p_Endpoint = \<lparr>Name = ''b'', Hosts = [''https://127.0.0.1:18081''], Writer = 3,
                      DurableChannel = 5, WorkerChannel = 4, Timeout = 5000000000\<rparr>,
       p_Queue = \<lparr>dq_Name = ''b'', DataPath = ''data'', MaxBytesPerFile = 1073741824,
                  MinMsgSize = 0, MaxMsgSize = 4, SyncEvery = 10000,
                  SyncTimeout = 10000000000\<rparr>,
       p_Workers = 2\<rparr>]"

definition world_two :: world where
  "world_two = world_init\<lparr>chans := [[], [], [], [], [], []]\<rparr>"

definition hello_record :: Request where
  "hello_record = \<lparr>Method = ''POST'', URL = ''/ingest'', Body = ''hello''\<rparr>"

section \<open>Properties\<close>

subsection \<open>Auxiliary facts\<close>

text \<open>\<open>Seconds\<close> is the duration over \<open>1e9\<close>, so it is zero for the zero duration only.\<close>

lemma Seconds_eq: "Seconds d = of_int d / 1000000000"
  by (simp add: Seconds_def go_rem_def Second_def field_simps)

lemma Seconds_zero: "Seconds d = 0 \<longleftrightarrow> d = 0"
  by (simp add: Seconds_eq)

text \<open>The fan-out loop: what a completed loop has done, why a loop gets stuck, and that it
  touches the channel store only.\<close>

lemma chan_send_chans:
  "chan_send ready c v w = Some w' \<Longrightarrow>
     c < length (chans w) \<and> ready c \<and> w' = w\<lparr>chans := (chans w)[c := chans w ! c @ [v]]\<rparr>"
  by (auto simp: chan_send_def split: if_splits)

lemma fan_out_Done:
  "fan_out ready es r w = Done w' \<Longrightarrow> distinct (map Writer es) \<Longrightarrow>
   length (chans w') = length (chans w) \<and>
   (\<forall>e \<in> set es. Writer e < length (chans w) \<and> ready (Writer e)) \<and>
   (\<forall>c < length (chans w). chans w' ! c =
        (if c \<in> Writer ` set es then chans w ! c @ [r] else chans w ! c)) \<and>
   w' = w\<lparr>chans := chans w'\<rparr>"
proof (induction es arbitrary: w)
  case Nil
  then show ?case by simp
next
  case (Cons e es)
  from Cons.prems(1) obtain w1 where s: "chan_send ready (Writer e) r w = Some w1"
    and f: "fan_out ready es r w1 = Done w'"
    by (auto split: option.splits)
  from chan_send_chans [OF s] have c: "Writer e < length (chans w)" and rd: "ready (Writer e)"
    and w1: "w1 = w\<lparr>chans := (chans w)[Writer e := chans w ! Writer e @ [r]]\<rparr>"
    by simp_all
  from Cons.prems(2) have d: "distinct (map Writer es)" and ne: "Writer e \<notin> Writer ` set es"
    by auto
  note ih = Cons.IH [OF f d]
  have len: "length (chans w1) = length (chans w)" by (simp add: w1)
  show ?case
  proof (intro conjI)
    show "length (chans w') = length (chans w)" using ih len by simp
    show "\<forall>e\<in>set (e # es). Writer e < length (chans w) \<and> ready (Writer e)"
      using ih c rd len by auto
    show "\<forall>c<length (chans w). chans w' ! c =
        (if c \<in> Writer ` set (e # es) then chans w ! c @ [r] else chans w ! c)"
    proof (intro allI impI)
      fix k assume k: "k < length (chans w)"
      with ih len have "chans w' ! k = (if k \<in> Writer ` set es then chans w1 ! k @ [r] else chans w1 ! k)"
        by simp
      then show "chans w' ! k = (if k \<in> Writer ` set (e # es) then chans w ! k @ [r] else chans w ! k)"
        using ne k c by (auto simp: w1 nth_list_update)
    qed
    show "w' = w\<lparr>chans := chans w'\<rparr>"
    proof -
      from ih have "w' = w1\<lparr>chans := chans w'\<rparr>" by simp
      then show ?thesis by (simp add: w1)
    qed
  qed
qed

lemma fan_out_Stuck:
  "fan_out ready es r w = Stuck w' \<Longrightarrow>
     \<exists>e \<in> set es. \<not> (Writer e < length (chans w) \<and> ready (Writer e))"
proof (induction es arbitrary: w)
  case Nil
  then show ?case by simp
next
  case (Cons e es)
  show ?case
  proof (cases "chan_send ready (Writer e) r w")
    case None
    then show ?thesis by (auto simp: chan_send_def split: if_splits)
  next
    case (Some w1)
    with Cons.prems have "fan_out ready es r w1 = Stuck w'" by simp
    from Cons.IH [OF this] chan_send_chans [OF Some] show ?thesis by auto
  qed
qed


lemma fan_out_frame:
  "fan_out ready es r w = Done w' \<or> fan_out ready es r w = Stuck w' \<Longrightarrow>
     w' = w\<lparr>chans := chans w'\<rparr>"
proof (induction es arbitrary: w)
  case Nil
  then show ?case by auto
next
  case (Cons e es)
  show ?case
  proof (cases "chan_send ready (Writer e) r w")
    case None
    with Cons.prems show ?thesis by auto
  next
    case (Some w1)
    with Cons.prems have "fan_out ready es r w1 = Done w' \<or> fan_out ready es r w1 = Stuck w'"
      by simp
    from Cons.IH [OF this] chan_send_chans [OF Some] show ?thesis by simp
  qed
qed

lemma fan_out_all_ready:
  "\<forall>e \<in> set es. Writer e < length (chans w) \<and> ready (Writer e) \<Longrightarrow>
     \<exists>w'. fan_out ready es r w = Done w'"
proof (induction es arbitrary: w)
  case Nil
  then show ?case by simp
next
  case (Cons e es)
  then have "chan_send ready (Writer e) r w =
               Some (w\<lparr>chans := (chans w)[Writer e := chans w ! Writer e @ [r]]\<rparr>)"
    by (simp add: chan_send_def)
  moreover have "\<exists>w'. fan_out ready es r
         (w\<lparr>chans := (chans w)[Writer e := chans w ! Writer e @ [r]]\<rparr>) = Done w'"
    using Cons.prems by (intro Cons.IH) simp
  ultimately show ?case by simp
qed

text \<open>The loop over the configured endpoints: every pipeline gets the options in force,
  every endpoint a fresh \<open>Writer\<close> channel, and the loop stops only by \<open>log.Fatalf\<close> or a
  panic.\<close>

lemma pipelines_keep:
  "register_endpoints parse t m c dir ces ep ps w = Inr (ep', ps', w') \<Longrightarrow>
     \<forall>p \<in> set ps. Timeout (p_Endpoint p) = t \<and> MaxMsgSize (p_Queue p) = m \<and> p_Workers p = nat c \<Longrightarrow>
     ep = map p_Endpoint ps \<Longrightarrow>
     (\<forall>p \<in> set ps'. Timeout (p_Endpoint p) = t \<and> MaxMsgSize (p_Queue p) = m \<and> p_Workers p = nat c)
     \<and> ep' = map p_Endpoint ps' \<and> length ps' = length ps + length ces"
proof (induction ces arbitrary: ep ps w)
  case Nil
  then show ?case by auto
next
  case (Cons ce ces)
  from Cons.prems(1) show ?case
    apply (simp add: make_chan_def Let_def split: option.splits if_splits)
    apply (drule Cons.IH)
    using Cons.prems(2,3) apply auto
    done
qed


lemma writers_fresh:
  "register_endpoints parse t m c dir ces ep ps w = Inr (ep', ps', w') \<Longrightarrow>
     distinct (map Writer ep) \<Longrightarrow> \<forall>e \<in> set ep. Writer e < length (chans w) \<Longrightarrow>
     distinct (map Writer ep') \<and> (\<forall>e \<in> set ep'. Writer e < length (chans w'))"
proof (induction ces arbitrary: ep ps w)
  case Nil
  then show ?case by auto
next
  case (Cons ce ces)
  from Cons.prems(1) show ?case
    apply (simp add: make_chan_def Let_def split: option.splits if_splits)
    apply (drule Cons.IH)
    using Cons.prems(2,3) apply (auto simp: less_Suc_eq)
    done
qed

lemma check_hosts_stop:
  "check_hosts parse name hosts = Some s \<Longrightarrow> (\<exists>m. s = Fatal m) \<or> (\<exists>m. s = Crashed m)"
  by (induction hosts) (auto split: sum.splits bool.splits if_splits)

lemma register_endpoints_stop:
  "register_endpoints parse t m c dir ces ep ps w = Inl s \<Longrightarrow>
     (\<exists>m. s = Fatal m) \<or> (\<exists>m. s = Crashed m)"
proof (induction ces arbitrary: ep ps w)
  case Nil
  then show ?case by simp
next
  case (Cons ce ces)
  show ?case
  proof (cases "check_hosts parse (ce_Name ce) (ce_Hosts ce)")
    case (Some stop)
    with Cons.prems have "s = stop" by simp
    with check_hosts_stop [OF Some] show ?thesis by simp
  next
    case None
    show ?thesis
    proof (cases "c < 0")
      case True
      with None Cons.prems show ?thesis by (auto simp: make_chan_def)
    next
      case False
      with None Cons.prems show ?thesis
        by (auto simp: make_chan_def Let_def dest: Cons.IH)
    qed
  qed
qed

lemma ListenAndServe_unfold:
  "ListenAndServe parse env config addr dataDir w =
          (case (if dir_missing env then mkdir_error env else None) of
             Some err \<Rightarrow> Fatal err
           | None \<Rightarrow>
              (case register_endpoints parse
                 (if HTTP_Timeout config = 0 then 10000000000 else HTTP_Timeout config)
                 (if Queue_MaxMessageSize config = 0 then 10485760 else Queue_MaxMessageSize config)
                 (if HTTP_Concurrency config = 0 then 25 else HTTP_Concurrency config)
                 dataDir (cfg_Endpoints config) [] [] w of
                 Inl stop \<Rightarrow> stop
               | Inr (ep, ps, w') \<Rightarrow>
                   (case listen_error env of
                      Some err \<Rightarrow> Fatal err
                    | None \<Rightarrow> Serving \<lparr>Endpoints = ep\<rparr> ps w')))"
proof -
  have n: "10 * 1000000000 = (10000000000::int)" "1024 * 1024 * 10 = (10485760::int)"
    by simp_all
  show ?thesis
    unfolding ListenAndServe_def Let_def Seconds_zero Second_def n
    by (rule refl)
qed


lemma ListenAndServe_Serving:
  assumes "ListenAndServe parse env config addr dataDir w = Serving h ps w'"
  shows "register_endpoints parse
           (if HTTP_Timeout config = 0 then 10000000000 else HTTP_Timeout config)
           (if Queue_MaxMessageSize config = 0 then 10485760 else Queue_MaxMessageSize config)
           (if HTTP_Concurrency config = 0 then 25 else HTTP_Concurrency config)
           dataDir (cfg_Endpoints config) [] [] w = Inr (Endpoints h, ps, w')"
proof -
  let ?reg = "register_endpoints parse
           (if HTTP_Timeout config = 0 then 10000000000 else HTTP_Timeout config)
           (if Queue_MaxMessageSize config = 0 then 10485760 else Queue_MaxMessageSize config)
           (if HTTP_Concurrency config = 0 then 25 else HTTP_Concurrency config)
           dataDir (cfg_Endpoints config) [] [] w"
  note eq = ListenAndServe_unfold [of parse env config addr dataDir w]
  show ?thesis
  proof (cases ?reg)
    case (Inl stop)
    from register_endpoints_stop [OF Inl] assms show ?thesis
      unfolding eq Inl by (auto split: option.splits)
  next
    case (Inr res)
    obtain ep ps1 w1 where res: "res = (ep, ps1, w1)" by (cases res) auto
    from assms have "Serving h ps w' = Serving \<lparr>Endpoints = ep\<rparr> ps1 w1"
      unfolding eq Inr res by (simp split: option.splits)
    then show ?thesis unfolding Inr res by simp
  qed
qed

lemma ListenAndServe_handler_wf:
  assumes "ListenAndServe parse env config addr dataDir w = Serving h ps w'"
      and "chans w = []"
  shows "distinct (map Writer (Endpoints h)) \<and> (\<forall>e \<in> set (Endpoints h). Writer e < length (chans w'))"
  using writers_fresh [OF ListenAndServe_Serving [OF assms(1)]] assms(2) by simp

text \<open>\<open>isValidURL\<close> for any parser: a nil URL is dereferenced; a URL parsed without error
  is valid exactly when its scheme is \<open>http\<close> or \<open>https\<close>.\<close>

lemma isValidURL_parse_error:
  "parse s = (None, err) \<Longrightarrow>
     isValidURL parse s = Inl ''runtime error: invalid memory address or nil pointer dereference''"
  by (simp add: isValidURL_def)

lemma isValidURL_parsed:
  "parse s = (Some u, None) \<Longrightarrow>
     isValidURL parse s = Inr (Scheme u = ''http'' \<or> Scheme u = ''https'')"
  by (simp add: isValidURL_def)

lemma HandleRequest_read_ok:
  "in_ReadAll req = (body, None) \<Longrightarrow>
     HandleRequest ready h req w =
       (case fan_out ready (Endpoints h) \<lparr>Method = in_Method req, URL = in_URL req, Body = body\<rparr>
               (w\<lparr>requests := requests w + 1\<rparr>) of
          Stuck w2 \<Rightarrow> NoReply w2
        | Done w2 \<Rightarrow> Replied 204 [] w2)"
  by (simp add: HandleRequest_def Let_def)

lemma HandleRequest_read_error:
  "in_ReadAll req = (body, Some err) \<Longrightarrow>
     HandleRequest ready h req w =
       Replied 400 (''can't read body'' @ [CHR 0x0A])
         (w\<lparr>requests := requests w + 1, failures := failures w + 1\<rparr>)"
  by (simp add: HandleRequest_def Let_def)

subsection \<open>The worker: one pass of the loop\<close>

text \<open>
  Claim C10. When \<open>http.NewRequest\<close> returns an error for a record, the worker goes on
  to the next record with the world as it was: the record is in no channel (it is
  neither re-enqueued nor tried again) and no counter or histogram has changed.
\<close>

theorem newrequest_error_drops_record:
  assumes "pick_host (Hosts endpoint) count = Inr host"
      and "NewRequest (Method (d_req d)) (host @ URL (d_req d)) (Body (d_req d)) = Inl err"
  shows "HTTPWorker_body NewRequest ready endpoint count d w = Waiting w \<and>
         HTTPWorker_loop NewRequest ready endpoint count (d # ds) w =
           HTTPWorker_loop NewRequest ready endpoint count ds w"
  using assms by (simp add: HTTPWorker_body_def Let_def)

theorem newrequest_error_drops_record_witness:
  "pick_host (Hosts endpoint_one) 0 = Inr ''http://127.0.0.1:18080'' \<and>
   NewRequest_fails (Method (d_req ok_delivery))
     (''http://127.0.0.1:18080'' @ URL (d_req ok_delivery)) (Body (d_req ok_delivery)) =
     Inl ''net/http: invalid method'' \<and>
   HTTPWorker_body NewRequest_fails always_ready endpoint_one 0 ok_delivery world_one =
     Waiting world_one \<and>
   HTTPWorker_loop NewRequest_fails always_ready endpoint_one 0 [ok_delivery, err_delivery] world_one =
     HTTPWorker_loop NewRequest_fails always_ready endpoint_one 0 [err_delivery] world_one"
proof -
  have h: "pick_host (Hosts endpoint_one) 0 = Inr ''http://127.0.0.1:18080''"
    by (simp add: pick_host_def endpoint_one_def go_rem_def go_div_def)
  have n: "NewRequest_fails (Method (d_req ok_delivery))
     (''http://127.0.0.1:18080'' @ URL (d_req ok_delivery)) (Body (d_req ok_delivery)) =
     Inl ''net/http: invalid method''"
    by (simp add: NewRequest_fails_def)
  from newrequest_error_drops_record [where NewRequest = NewRequest_fails and endpoint = endpoint_one
         and count = 0 and d = ok_delivery and ready = always_ready and w = world_one
         and ds = "[err_delivery]", OF h n] h n
  show ?thesis by simp
qed

text \<open>
  Claim C5. When the dispatch of a record ends in a transport error, the worker sends
  that same record on the \<open>Writer\<close> channel of its own endpoint and goes on to the next
  record; the counters of the ingress handler are untouched. While nothing receives
  from that channel the worker stays in the send, holding the record: it is in no case
  dropped.
\<close>

theorem transport_error_reenqueues:
  assumes "pick_host (Hosts endpoint) count = Inr host"
      and "NewRequest (Method (d_req d)) (host @ URL (d_req d)) (Body (d_req d)) = Inr proxyReq"
      and "d_do d = TransportError err"
  shows "(Writer endpoint < length (chans w) \<and> ready (Writer endpoint) \<longrightarrow>
            (\<exists>w'. HTTPWorker_body NewRequest ready endpoint count d w = Waiting w' \<and>
                  chans w' = (chans w)[Writer endpoint := chans w ! Writer endpoint @ [d_req d]] \<and>
                  requests w' = requests w \<and> failures w' = failures w \<and>
                  HTTPWorker_loop NewRequest ready endpoint count (d # ds) w =
                    HTTPWorker_loop NewRequest ready endpoint count ds w')) \<and>
         (\<not> (Writer endpoint < length (chans w) \<and> ready (Writer endpoint)) \<longrightarrow>
            (\<exists>w'. HTTPWorker_body NewRequest ready endpoint count d w = Blocked (d_req d) w' \<and>
                  chans w' = chans w \<and> requests w' = requests w \<and> failures w' = failures w))"
  using assms by (simp add: HTTPWorker_body_def Let_def chan_send_def)

theorem transport_error_reenqueues_witness:
  "pick_host (Hosts endpoint_one) 0 = Inr ''http://127.0.0.1:18080'' \<and>
   NewRequest_ok (Method (d_req err_delivery))
     (''http://127.0.0.1:18080'' @ URL (d_req err_delivery)) (Body (d_req err_delivery)) =
     Inr \<lparr>pr_Method = ''POST'', pr_URL = ''http://127.0.0.1:18080/ingest'', pr_Body = ''x''\<rparr> \<and>
   d_do err_delivery = TransportError ''connection refused'' \<and>
   Writer endpoint_one < length (chans world_one) \<and> always_ready (Writer endpoint_one) \<and>
   chans (world_of (HTTPWorker_body NewRequest_ok always_ready endpoint_one 0 err_delivery world_one)) =
     [[post_x], [], []] \<and>
   \<not> never_ready (Writer endpoint_one) \<and>
   HTTPWorker_body NewRequest_ok never_ready endpoint_one 0 err_delivery world_one =
     Blocked post_x (world_of (HTTPWorker_body NewRequest_ok never_ready endpoint_one 0 err_delivery world_one))"
proof -
  have h: "pick_host (Hosts endpoint_one) 0 = Inr ''http://127.0.0.1:18080''"
    by (simp add: pick_host_def endpoint_one_def go_rem_def go_div_def)
  have n: "NewRequest_ok (Method (d_req err_delivery))
     (''http://127.0.0.1:18080'' @ URL (d_req err_delivery)) (Body (d_req err_delivery)) =
     Inr \<lparr>pr_Method = ''POST'', pr_URL = ''http://127.0.0.1:18080/ingest'', pr_Body = ''x''\<rparr>"
    by (simp add: NewRequest_ok_def err_delivery_def post_x_def)
  have e: "d_do err_delivery = TransportError ''connection refused''"
    by (simp add: err_delivery_def)
  have r: "Writer endpoint_one < length (chans world_one) \<and> always_ready (Writer endpoint_one)"
    by (simp add: endpoint_one_def world_one_def always_ready_def)
  have nr: "\<not> never_ready (Writer endpoint_one)"
    by (simp add: never_ready_def)
  have c: "chans world_one = [[], [], []]" "Writer endpoint_one = 0" "d_req err_delivery = post_x"
    by (simp_all add: world_one_def endpoint_one_def err_delivery_def)
  from transport_error_reenqueues [where NewRequest = NewRequest_ok and endpoint = endpoint_one
         and count = 0 and d = err_delivery and ready = always_ready and w = world_one
         and ds = "[]", OF h n e]
       transport_error_reenqueues [where NewRequest = NewRequest_ok and endpoint = endpoint_one
         and count = 0 and d = err_delivery and ready = never_ready and w = world_one
         and ds = "[]", OF h n e] h n e r nr c
  show ?thesis by auto
qed

text \<open>
  Claim C6. When the dispatch of a record returns a response, whatever its status code
  (a 5xx included), the worker copies the whole body to \<open>ioutil.Discard\<close>, sends nothing
  on any channel (no re-enqueue, no retry), leaves the failure counter as it was and
  goes on to the next record.
\<close>

theorem response_is_delivered:
  assumes "pick_host (Hosts endpoint) count = Inr host"
      and "NewRequest (Method (d_req d)) (host @ URL (d_req d)) (Body (d_req d)) = Inr proxyReq"
      and "d_do d = Response status body"
  shows "\<exists>w'. HTTPWorker_body NewRequest ready endpoint count d w = Waiting w' \<and>
              chans w' = chans w \<and>
              endpointFailures w' = endpointFailures w \<and>
              discarded w' = discarded w @ [length body] \<and>
              HTTPWorker_loop NewRequest ready endpoint count (d # ds) w =
                HTTPWorker_loop NewRequest ready endpoint count ds w'"
  using assms by (simp add: HTTPWorker_body_def Let_def)

theorem response_is_delivered_witness:
  "pick_host (Hosts endpoint_one) 0 = Inr ''http://127.0.0.1:18080'' \<and>
   NewRequest_ok (Method (d_req busy_delivery))
     (''http://127.0.0.1:18080'' @ URL (d_req busy_delivery)) (Body (d_req busy_delivery)) =
     Inr \<lparr>pr_Method = ''POST'', pr_URL = ''http://127.0.0.1:18080/ingest'', pr_Body = ''x''\<rparr> \<and>
   d_do busy_delivery = Response 503 ''busy'' \<and>
   chans (world_of (HTTPWorker_body NewRequest_ok never_ready endpoint_one 0 busy_delivery world_one)) =
     [[], [], []] \<and>
   endpointFailures (world_of (HTTPWorker_body NewRequest_ok never_ready endpoint_one 0 busy_delivery world_one)) ''a'' = 0 \<and>
   discarded (world_of (HTTPWorker_body NewRequest_ok never_ready endpoint_one 0 busy_delivery world_one)) = [4]"
proof -
  have h: "pick_host (Hosts endpoint_one) 0 = Inr ''http://127.0.0.1:18080''"
    by (simp add: pick_host_def endpoint_one_def go_rem_def go_div_def)
  have n: "NewRequest_ok (Method (d_req busy_delivery))
     (''http://127.0.0.1:18080'' @ URL (d_req busy_delivery)) (Body (d_req busy_delivery)) =
     Inr \<lparr>pr_Method = ''POST'', pr_URL = ''http://127.0.0.1:18080/ingest'', pr_Body = ''x''\<rparr>"
    by (simp add: NewRequest_ok_def busy_delivery_def post_x_def)
  have e: "d_do busy_delivery = Response 503 ''busy''"
    by (simp add: busy_delivery_def)
  have c: "chans world_one = [[], [], []]" "endpointFailures world_one ''a'' = 0"
          "discarded world_one = []"
    by (simp_all add: world_one_def world_init_def)
  from response_is_delivered [where NewRequest = NewRequest_ok and endpoint = endpoint_one
         and count = 0 and d = busy_delivery and ready = never_ready and w = world_one
         and ds = "[]", OF h n e] h n e c
  show ?thesis by auto
qed

text \<open>
  Claim C9. For every dispatch a worker attempts (the outbound request was built),
  \<open>endpoint_requests\<close> of the endpoint's name goes up by one and no other name changes;
  \<open>endpoint_failures\<close> of that name goes up by one exactly when \<open>client.Do\<close> returned a
  transport error and is unchanged otherwise; and \<open>endpoint_latency_us\<close> of that name
  observes the elapsed nanoseconds divided by 1000, in the error branch as in the
  success branch.
\<close>

theorem dispatch_metrics:
  assumes "pick_host (Hosts endpoint) count = Inr host"
      and "NewRequest (Method (d_req d)) (host @ URL (d_req d)) (Body (d_req d)) = Inr proxyReq"
  shows "endpointRequests (world_of (HTTPWorker_body NewRequest ready endpoint count d w)) =
           (endpointRequests w)(Name endpoint := endpointRequests w (Name endpoint) + 1) \<and>
         endpointFailures (world_of (HTTPWorker_body NewRequest ready endpoint count d w)) =
           (case d_do d of
              TransportError err \<Rightarrow>
                (endpointFailures w)(Name endpoint := endpointFailures w (Name endpoint) + 1)
            | Response status body \<Rightarrow> endpointFailures w) \<and>
         endpointLatencyHistogram (world_of (HTTPWorker_body NewRequest ready endpoint count d w)) =
           (endpointLatencyHistogram w)
             (Name endpoint := endpointLatencyHistogram w (Name endpoint) @ [go_div (d_ns d) 1000])"
  using assms
  by (simp add: HTTPWorker_body_def Let_def chan_send_def split: do_result.splits)

theorem dispatch_metrics_witness:
  "pick_host (Hosts endpoint_one) 0 = Inr ''http://127.0.0.1:18080'' \<and>
   NewRequest_ok (Method (d_req err_delivery))
     (''http://127.0.0.1:18080'' @ URL (d_req err_delivery)) (Body (d_req err_delivery)) =
     Inr \<lparr>pr_Method = ''POST'', pr_URL = ''http://127.0.0.1:18080/ingest'', pr_Body = ''x''\<rparr> \<and>
   endpointRequests (world_of (HTTPWorker_body NewRequest_ok always_ready endpoint_one 0 err_delivery world_one)) ''a'' = 1 \<and>
   endpointFailures (world_of (HTTPWorker_body NewRequest_ok always_ready endpoint_one 0 err_delivery world_one)) ''a'' = 1 \<and>
   endpointLatencyHistogram (world_of (HTTPWorker_body NewRequest_ok always_ready endpoint_one 0 err_delivery world_one)) ''a'' = [2]"
proof -
  have h: "pick_host (Hosts endpoint_one) 0 = Inr ''http://127.0.0.1:18080''"
    by (simp add: pick_host_def endpoint_one_def go_rem_def go_div_def)
  have n: "NewRequest_ok (Method (d_req err_delivery))
     (''http://127.0.0.1:18080'' @ URL (d_req err_delivery)) (Body (d_req err_delivery)) =
     Inr \<lparr>pr_Method = ''POST'', pr_URL = ''http://127.0.0.1:18080/ingest'', pr_Body = ''x''\<rparr>"
    by (simp add: NewRequest_ok_def err_delivery_def post_x_def)
  have c: "endpointRequests world_one ''a'' = 0" "endpointFailures world_one ''a'' = 0"
          "endpointLatencyHistogram world_one ''a'' = []" "Name endpoint_one = ''a''"
          "d_do err_delivery = TransportError ''connection refused''"
          "go_div (d_ns err_delivery) 1000 = 2"
    by (simp_all add: world_one_def world_init_def endpoint_one_def err_delivery_def go_div_def)
  from dispatch_metrics [where NewRequest = NewRequest_ok and endpoint = endpoint_one
         and count = 0 and d = err_delivery and ready = always_ready and w = world_one,
         OF h n] h n c
  show ?thesis by simp
qed

subsection \<open>The ingress handler\<close>

text \<open>
  Claim C4. For a request whose body is read without error the handler builds one
  record (method, \<open>req.URL.String()\<close>, body) and sends it on the \<open>Writer\<close> channel of
  every endpoint, in order, before it writes 204: whenever the client gets a reply, the
  reply is 204 with an empty body and every inbox has received exactly that record once
  (no other channel has changed); when every inbox is being received from the reply
  comes; and when some inbox is not, the handler stays in its send and the client sees
  no reply. The handler is one that startup builds: its \<open>Writer\<close> channels are distinct
  and made.
\<close>

theorem fan_out_before_reply:
  assumes "in_ReadAll req = (body, None)"
      and "distinct (map Writer (Endpoints h))"
      and "\<forall>e \<in> set (Endpoints h). Writer e < length (chans w)"
  shows "(\<forall>status msg w'. HandleRequest ready h req w = Replied status msg w' \<longrightarrow>
            status = 204 \<and> msg = [] \<and> length (chans w') = length (chans w) \<and>
            (\<forall>e \<in> set (Endpoints h). ready (Writer e)) \<and>
            (\<forall>c < length (chans w). chans w' ! c =
               (if c \<in> Writer ` set (Endpoints h)
                then chans w ! c @ [\<lparr>Method = in_Method req, URL = in_URL req, Body = body\<rparr>]
                else chans w ! c))) \<and>
         ((\<forall>e \<in> set (Endpoints h). ready (Writer e)) \<longrightarrow>
            (\<exists>w'. HandleRequest ready h req w = Replied 204 [] w')) \<and>
         ((\<exists>e \<in> set (Endpoints h). \<not> ready (Writer e)) \<longrightarrow>
            (\<exists>w'. HandleRequest ready h req w = NoReply w'))"
proof -
  let ?r = "\<lparr>Method = in_Method req, URL = in_URL req, Body = body\<rparr>"
  let ?w1 = "w\<lparr>requests := requests w + 1\<rparr>"
  note hr = HandleRequest_read_ok [OF assms(1), of ready h w]
  have len1: "length (chans ?w1) = length (chans w)" and ch1: "chans ?w1 = chans w"
    by simp_all
  show ?thesis
  proof (cases "fan_out ready (Endpoints h) ?r ?w1")
    case (Done w2)
    have res: "HandleRequest ready h req w = Replied 204 [] w2"
      unfolding hr Done by simp
    from fan_out_Done [OF Done assms(2)]
    have l: "length (chans w2) = length (chans w)"
      and rd: "\<forall>e \<in> set (Endpoints h). ready (Writer e)"
      and ch: "\<forall>c < length (chans w). chans w2 ! c =
                 (if c \<in> Writer ` set (Endpoints h) then chans w ! c @ [?r] else chans w ! c)"
      unfolding ch1 by blast+
    show ?thesis
      unfolding res using l rd ch by simp
  next
    case (Stuck w2)
    have res: "HandleRequest ready h req w = NoReply w2"
      unfolding hr Stuck by simp
    from fan_out_Stuck [OF Stuck] assms(3)
    have nr: "\<exists>e \<in> set (Endpoints h). \<not> ready (Writer e)"
      unfolding ch1 by blast
    show ?thesis
      unfolding res using nr by simp
  qed
qed

theorem fan_out_before_reply_witness:
  "in_ReadAll post_hello = (''hello'', None) \<and>
   distinct (map Writer (Endpoints handler_two)) \<and>
   map Writer (Endpoints handler_two) = [0, 3] \<and> length (chans world_two) = 6 \<and>
   always_ready 0 \<and> always_ready 3 \<and>
   HandleRequest always_ready handler_two post_hello world_two =
     Replied 204 [] (world_two\<lparr>requests := 1,
        chans := [[hello_record], [], [], [hello_record], [], []]\<rparr>) \<and>
   (\<exists>e \<in> set (Endpoints handler_two). \<not> never_ready (Writer e)) \<and>
   HandleRequest never_ready handler_two post_hello world_two =
     NoReply (world_two\<lparr>requests := 1\<rparr>)"
proof -
  have h1: "in_ReadAll post_hello = (''hello'', None)"
    by (simp add: post_hello_def)
  have h2: "distinct (map Writer (Endpoints handler_two))"
    by (simp add: handler_two_def)
  have h3: "\<forall>e \<in> set (Endpoints handler_two). Writer e < length (chans world_two)"
    by (simp add: handler_two_def world_two_def)
  have h4: "\<forall>e \<in> set (Endpoints handler_two). always_ready (Writer e)"
    by (simp add: always_ready_def)
  have h5: "\<exists>e \<in> set (Endpoints handler_two). \<not> never_ready (Writer e)"
    by (auto simp: never_ready_def handler_two_def)
  have e1: "HandleRequest always_ready handler_two post_hello world_two =
     Replied 204 [] (world_two\<lparr>requests := 1,
        chans := [[hello_record], [], [], [hello_record], [], []]\<rparr>)"
    by (simp add: HandleRequest_def Let_def post_hello_def handler_two_def world_two_def
          world_init_def chan_send_def always_ready_def hello_record_def)
  have e2: "HandleRequest never_ready handler_two post_hello world_two =
     NoReply (world_two\<lparr>requests := 1\<rparr>)"
    by (simp add: HandleRequest_def Let_def post_hello_def handler_two_def world_two_def
          world_init_def chan_send_def never_ready_def)
  have c: "map Writer (Endpoints handler_two) = [0, 3]" "length (chans world_two) = 6"
          "always_ready 0" "always_ready 3"
    by (simp_all add: handler_two_def world_two_def always_ready_def)
  from fan_out_before_reply [OF h1 h2 h3, of always_ready]
       fan_out_before_reply [OF h1 h2 h3, of never_ready] h1 h2 h3 h4 h5 e1 e2 c
  show ?thesis by blast
qed

text \<open>
  Claim C3, as stated, at a concrete input: started with \<open>max_message_size\<close> 4, the
  handler answers a request with the five-byte body \<open>hello\<close> with 204, leaves \<open>failures\<close>
  at zero and sends the record on the inbox of both endpoints.
\<close>

theorem oversized_body_is_enqueued:
  "ListenAndServe ParseRequestURI_front env_ok cfg_two '':8080'' ''data'' world_init =
     Serving handler_two pipelines_two world_two \<and>
   map (MaxMsgSize \<circ> p_Queue) pipelines_two = [4, 4] \<and>
   length (fst (in_ReadAll post_hello)) = 5 \<and>
   HandleRequest always_ready handler_two post_hello world_two =
     Replied 204 [] (world_two\<lparr>requests := 1,
        chans := [[hello_record], [], [], [hello_record], [], []]\<rparr>) \<and>
   failures (world_two\<lparr>requests := 1,
        chans := [[hello_record], [], [], [hello_record], [], []]\<rparr>) = 0"
  by (simp add: ListenAndServe_unfold Let_def env_ok_def cfg_two_def world_init_def make_chan_def
        isValidURL_def ParseRequestURI_front_def getScheme_def is_letter_def
        is_scheme_punct_def stringContainsCTLByte_def ToLower_def Second_def
        handler_two_def pipelines_two_def world_two_def
        HandleRequest_def post_hello_def chan_send_def always_ready_def hello_record_def)

text \<open>
  Claim C3, amended. The handler replies 400, increments \<open>failures\<close> and sends nothing
  on any channel exactly when reading the body returned an error. It has no size limit
  of its own: for a server that startup has set up, whatever \<open>max_message_size\<close> is
  configured and whatever the length of the body, a request whose body was read without
  error is never answered 400 and never counted in \<open>failures\<close>; when every inbox is being
  received from, the record is sent on the inbox of every endpoint exactly once (no
  other channel changes) and the reply is 204; when some inbox is not, the handler
  stays in its send and gives no reply. Startup hands \<open>max_message_size\<close> (10 MiB if
  zero) to the configuration of each durable queue.
\<close>

theorem ingress_has_no_size_limit:
  assumes "ListenAndServe parse env config addr dataDir w0 = Serving h ps w1"
      and "chans w0 = []"
      and "length (chans w) = length (chans w1)"
  shows "(\<forall>p \<in> set ps. MaxMsgSize (p_Queue p) =
            (if Queue_MaxMessageSize config = 0 then 10485760 else Queue_MaxMessageSize config)) \<and>
         (snd (in_ReadAll req) \<noteq> None \<longrightarrow>
            HandleRequest ready h req w =
              Replied 400 (''can't read body'' @ [CHR 0x0A])
                (w\<lparr>requests := requests w + 1, failures := failures w + 1\<rparr>)) \<and>
         (snd (in_ReadAll req) = None \<longrightarrow>
            ((\<forall>e \<in> set (Endpoints h). ready (Writer e)) \<longrightarrow>
               (\<exists>w'. HandleRequest ready h req w = Replied 204 [] w' \<and>
                     failures w' = failures w \<and> requests w' = requests w + 1 \<and>
                     length (chans w') = length (chans w) \<and>
                     (\<forall>c < length (chans w). chans w' ! c =
                        (if c \<in> Writer ` set (Endpoints h)
                         then chans w ! c @ [\<lparr>Method = in_Method req, URL = in_URL req,
                                               Body = fst (in_ReadAll req)\<rparr>]
                         else chans w ! c)))) \<and>
            ((\<exists>e \<in> set (Endpoints h). \<not> ready (Writer e)) \<longrightarrow>
               (\<exists>w'. HandleRequest ready h req w = NoReply w' \<and> failures w' = failures w)) \<and>
            (\<forall>msg w'. HandleRequest ready h req w \<noteq> Replied 400 msg w'))"
proof (intro conjI)
  from pipelines_keep [OF ListenAndServe_Serving [OF assms(1)]]
  show "\<forall>p \<in> set ps. MaxMsgSize (p_Queue p) =
            (if Queue_MaxMessageSize config = 0 then 10485760 else Queue_MaxMessageSize config)"
    by simp
next
  show "snd (in_ReadAll req) \<noteq> None \<longrightarrow>
            HandleRequest ready h req w =
              Replied 400 (''can't read body'' @ [CHR 0x0A])
                (w\<lparr>requests := requests w + 1, failures := failures w + 1\<rparr>)"
  proof
    assume "snd (in_ReadAll req) \<noteq> None"
    then obtain body err where "in_ReadAll req = (body, Some err)"
      by (cases "in_ReadAll req") auto
    then show "HandleRequest ready h req w =
              Replied 400 (''can't read body'' @ [CHR 0x0A])
                (w\<lparr>requests := requests w + 1, failures := failures w + 1\<rparr>)"
      by (rule HandleRequest_read_error)
  qed
next
  show "snd (in_ReadAll req) = None \<longrightarrow>
            ((\<forall>e \<in> set (Endpoints h). ready (Writer e)) \<longrightarrow>
               (\<exists>w'. HandleRequest ready h req w = Replied 204 [] w' \<and>
                     failures w' = failures w \<and> requests w' = requests w + 1 \<and>
                     length (chans w') = length (chans w) \<and>
                     (\<forall>c < length (chans w). chans w' ! c =
                        (if c \<in> Writer ` set (Endpoints h)
                         then chans w ! c @ [\<lparr>Method = in_Method req, URL = in_URL req,
                                               Body = fst (in_ReadAll req)\<rparr>]
                         else chans w ! c)))) \<and>
            ((\<exists>e \<in> set (Endpoints h). \<not> ready (Writer e)) \<longrightarrow>
               (\<exists>w'. HandleRequest ready h req w = NoReply w' \<and> failures w' = failures w)) \<and>
            (\<forall>msg w'. HandleRequest ready h req w \<noteq> Replied 400 msg w')"
  proof
    assume n: "snd (in_ReadAll req) = None"
    let ?r = "\<lparr>Method = in_Method req, URL = in_URL req, Body = fst (in_ReadAll req)\<rparr>"
    let ?w1 = "w\<lparr>requests := requests w + 1\<rparr>"
    from n have rd: "in_ReadAll req = (fst (in_ReadAll req), None)"
      by (cases "in_ReadAll req") auto
    note hr = HandleRequest_read_ok [OF rd, of ready h w]
    from ListenAndServe_handler_wf [OF assms(1,2)] assms(3)
    have dist: "distinct (map Writer (Endpoints h))"
      and made: "\<forall>e \<in> set (Endpoints h). Writer e < length (chans w)"
      by simp_all
    have ch1: "chans ?w1 = chans w" by simp
    show "((\<forall>e \<in> set (Endpoints h). ready (Writer e)) \<longrightarrow>
               (\<exists>w'. HandleRequest ready h req w = Replied 204 [] w' \<and>
                     failures w' = failures w \<and> requests w' = requests w + 1 \<and>
                     length (chans w') = length (chans w) \<and>
                     (\<forall>c < length (chans w). chans w' ! c =
                        (if c \<in> Writer ` set (Endpoints h) then chans w ! c @ [?r]
                         else chans w ! c)))) \<and>
            ((\<exists>e \<in> set (Endpoints h). \<not> ready (Writer e)) \<longrightarrow>
               (\<exists>w'. HandleRequest ready h req w = NoReply w' \<and> failures w' = failures w)) \<and>
            (\<forall>msg w'. HandleRequest ready h req w \<noteq> Replied 400 msg w')"
    proof (cases "fan_out ready (Endpoints h) ?r ?w1")
      case (Done w2)
      have res: "HandleRequest ready h req w = Replied 204 [] w2"
        unfolding hr Done by simp
      from fan_out_Done [OF Done dist]
      have l: "length (chans w2) = length (chans w)"
        and rdy: "\<forall>e \<in> set (Endpoints h). ready (Writer e)"
        and ch: "\<forall>c < length (chans w). chans w2 ! c =
                   (if c \<in> Writer ` set (Endpoints h) then chans w ! c @ [?r] else chans w ! c)"
        and fr: "w2 = ?w1\<lparr>chans := chans w2\<rparr>"
        unfolding ch1 by blast+
      from fr have "failures w2 = failures (?w1\<lparr>chans := chans w2\<rparr>)"
        and "requests w2 = requests (?w1\<lparr>chans := chans w2\<rparr>)" by simp_all
      then have f: "failures w2 = failures w" and q: "requests w2 = requests w + 1"
        by simp_all
      show ?thesis
        unfolding res using l rdy ch f q by simp
    next
      case (Stuck w2)
      have res: "HandleRequest ready h req w = NoReply w2"
        unfolding hr Stuck by simp
      from fan_out_Stuck [OF Stuck] made
      have nr: "\<exists>e \<in> set (Endpoints h). \<not> ready (Writer e)"
        unfolding ch1 by blast
      from fan_out_frame [of ready "Endpoints h" ?r ?w1 w2] Stuck
      have "w2 = ?w1\<lparr>chans := chans w2\<rparr>" by simp
      then have "failures w2 = failures (?w1\<lparr>chans := chans w2\<rparr>)" by simp
      then have f: "failures w2 = failures w" by simp
      show ?thesis
        unfolding res using nr f by simp
    qed
  qed
qed

theorem ingress_has_no_size_limit_witness:
  "ListenAndServe ParseRequestURI_front env_ok cfg_two '':8080'' ''data'' world_init =
     Serving handler_two pipelines_two world_two \<and>
   chans world_init = [] \<and>
   length (chans world_two) = length (chans world_two) \<and>
   Queue_MaxMessageSize cfg_two = 4 \<and>
   map (MaxMsgSize \<circ> p_Queue) pipelines_two = [4, 4] \<and>
   snd (in_ReadAll post_broken) \<noteq> None \<and>
   HandleRequest always_ready handler_two post_broken world_two =
     Replied 400 (''can't read body'' @ [CHR 0x0A]) (world_two\<lparr>requests := 1, failures := 1\<rparr>) \<and>
   snd (in_ReadAll post_hello) = None \<and>
   length (fst (in_ReadAll post_hello)) = 5 \<and>
   always_ready 0 \<and> always_ready 3 \<and>
   HandleRequest always_ready handler_two post_hello world_two =
     Replied 204 [] (world_two\<lparr>requests := 1,
        chans := [[hello_record], [], [], [hello_record], [], []]\<rparr>) \<and>
   \<not> never_ready 0 \<and>
   HandleRequest never_ready handler_two post_hello world_two =
     NoReply (world_two\<lparr>requests := 1\<rparr>)"
proof -
  have s: "ListenAndServe ParseRequestURI_front env_ok cfg_two '':8080'' ''data'' world_init =
     Serving handler_two pipelines_two world_two"
    by (simp add: ListenAndServe_unfold Let_def env_ok_def world_init_def make_chan_def
          isValidURL_def ParseRequestURI_front_def getScheme_def is_letter_def
          is_scheme_punct_def stringContainsCTLByte_def ToLower_def Second_def
          cfg_two_def handler_two_def pipelines_two_def world_two_def)
  have i: "chans world_init = []" by (simp add: world_init_def)
  have l: "length (chans world_two) = length (chans world_two)" by simp
  have c: "Queue_MaxMessageSize cfg_two = 4" "map (MaxMsgSize \<circ> p_Queue) pipelines_two = [4, 4]"
          "snd (in_ReadAll post_broken) \<noteq> None" "snd (in_ReadAll post_hello) = None"
          "length (fst (in_ReadAll post_hello)) = 5" "always_ready 0" "always_ready 3"
          "\<not> never_ready 0"
    by (simp_all add: cfg_two_def pipelines_two_def post_broken_def post_hello_def
          always_ready_def never_ready_def)
  have w: "world_two\<lparr>requests := requests world_two + 1, failures := failures world_two + 1\<rparr> =
           world_two\<lparr>requests := 1, failures := 1\<rparr>"
    by (simp add: world_two_def world_init_def)
  from ingress_has_no_size_limit [OF s i l, of post_broken always_ready] c(3) w
  have e0: "HandleRequest always_ready handler_two post_broken world_two =
     Replied 400 (''can't read body'' @ [CHR 0x0A]) (world_two\<lparr>requests := 1, failures := 1\<rparr>)"
    by simp
  have e1: "HandleRequest always_ready handler_two post_hello world_two =
     Replied 204 [] (world_two\<lparr>requests := 1,
        chans := [[hello_record], [], [], [hello_record], [], []]\<rparr>)"
    by (simp add: HandleRequest_def Let_def post_hello_def handler_two_def world_two_def
          world_init_def chan_send_def always_ready_def hello_record_def)
  have e2: "HandleRequest never_ready handler_two post_hello world_two =
     NoReply (world_two\<lparr>requests := 1\<rparr>)"
    by (simp add: HandleRequest_def Let_def post_hello_def handler_two_def world_two_def
          world_init_def chan_send_def never_ready_def)
  from s i l c e0 e1 e2 show ?thesis by blast
qed

subsection \<open>Startup\<close>

text \<open>
  Claim C7. When startup reaches serving, it has set up one pipeline for each configured
  endpoint, and in every one of them the timeout is 10 seconds (\<open>10000000000\<close> ns) if
  \<open>http.timeout\<close> is zero and the configured value otherwise, the number of workers
  started is 25 if \<open>http.concurrency\<close> is zero and the configured value otherwise, and
  the message size limit given to the durable queue is 10 MiB (\<open>10485760\<close>) if
  \<open>queue.max_message_size\<close> is zero and the configured value otherwise.
\<close>

theorem defaults_replace_zero_values:
  assumes "ListenAndServe parse env config addr dataDir w = Serving h ps w'"
  shows "length ps = length (cfg_Endpoints config) \<and>
         Endpoints h = map p_Endpoint ps \<and>
         (\<forall>p \<in> set ps.
            Timeout (p_Endpoint p) =
              (if HTTP_Timeout config = 0 then 10000000000 else HTTP_Timeout config) \<and>
            p_Workers p =
              nat (if HTTP_Concurrency config = 0 then 25 else HTTP_Concurrency config) \<and>
            MaxMsgSize (p_Queue p) =
              (if Queue_MaxMessageSize config = 0 then 10485760 else Queue_MaxMessageSize config))"
  using pipelines_keep [OF ListenAndServe_Serving [OF assms]] by simp

theorem defaults_replace_zero_values_witness:
  "ListenAndServe ParseRequestURI_front env_ok cfg_one '':8080'' ''data'' world_init =
     Serving \<lparr>Endpoints = [endpoint_one]\<rparr> [pipeline_one] world_one \<and>
   HTTP_Timeout cfg_one = 0 \<and> HTTP_Concurrency cfg_one = 0 \<and> Queue_MaxMessageSize cfg_one = 0 \<and>
   Timeout (p_Endpoint pipeline_one) = 10000000000 \<and>
   p_Workers pipeline_one = 25 \<and>
   MaxMsgSize (p_Queue pipeline_one) = 10485760 \<and>
   ListenAndServe ParseRequestURI_front env_ok cfg_two '':8080'' ''data'' world_init =
     Serving handler_two pipelines_two world_two \<and>
   HTTP_Timeout cfg_two = 5000000000 \<and> HTTP_Concurrency cfg_two = 2 \<and>
   Queue_MaxMessageSize cfg_two = 4 \<and>
   map (Timeout \<circ> p_Endpoint) pipelines_two = [5000000000, 5000000000] \<and>
   map p_Workers pipelines_two = [2, 2] \<and>
   map (MaxMsgSize \<circ> p_Queue) pipelines_two = [4, 4]"
proof -
  have s1: "ListenAndServe ParseRequestURI_front env_ok cfg_one '':8080'' ''data'' world_init =
     Serving \<lparr>Endpoints = [endpoint_one]\<rparr> [pipeline_one] world_one"
    by (simp add: ListenAndServe_unfold Let_def env_ok_def world_init_def make_chan_def
        isValidURL_def ParseRequestURI_front_def getScheme_def is_letter_def
        is_scheme_punct_def stringContainsCTLByte_def ToLower_def Second_def
          cfg_one_def endpoint_one_def pipeline_one_def world_one_def)
  have s2: "ListenAndServe ParseRequestURI_front env_ok cfg_two '':8080'' ''data'' world_init =
     Serving handler_two pipelines_two world_two"
    by (simp add: ListenAndServe_unfold Let_def env_ok_def world_init_def make_chan_def
        isValidURL_def ParseRequestURI_front_def getScheme_def is_letter_def
        is_scheme_punct_def stringContainsCTLByte_def ToLower_def Second_def
          cfg_two_def handler_two_def pipelines_two_def world_two_def)
  have c: "HTTP_Timeout cfg_one = 0" "HTTP_Concurrency cfg_one = 0" "Queue_MaxMessageSize cfg_one = 0"
          "HTTP_Timeout cfg_two = 5000000000" "HTTP_Concurrency cfg_two = 2"
          "Queue_MaxMessageSize cfg_two = 4"
    by (simp_all add: cfg_one_def cfg_two_def)
  from defaults_replace_zero_values [OF s1] c(1-3)
  have t1: "Timeout (p_Endpoint pipeline_one) = 10000000000"
           "p_Workers pipeline_one = 25"
           "MaxMsgSize (p_Queue pipeline_one) = 10485760"
    by auto
  have t2: "map (Timeout \<circ> p_Endpoint) pipelines_two = [5000000000, 5000000000]"
           "map p_Workers pipelines_two = [2, 2]"
           "map (MaxMsgSize \<circ> p_Queue) pipelines_two = [4, 4]"
    by (simp_all add: pipelines_two_def)
  from s1 s2 c t1 t2 show ?thesis by blast
qed

text \<open>
  Claim C8, as stated, at a concrete input: with an empty endpoints list, a data
  directory that exists and a listener that binds, startup does not end in a fatal
  error: it serves, with a handler that has no endpoint and with no pipeline.
\<close>

theorem empty_endpoints_start_serving:
  "cfg_Endpoints cfg_empty = [] \<and>
   ListenAndServe ParseRequestURI_front env_ok cfg_empty '':8080'' ''data'' world_init =
     Serving \<lparr>Endpoints = []\<rparr> [] world_init"
  by (simp add: ListenAndServe_unfold env_ok_def cfg_empty_def)

text \<open>
  Claim C8, amended. An empty endpoints list is not a startup error. With no endpoint
  configured, startup is fatal only when the data directory is missing and cannot be
  created or when the listener returns an error; otherwise the process serves ingress
  with no endpoint pipeline. \<open>ParseConfig\<close> returns whatever configuration the file
  unmarshals to, an empty endpoints list included, and the handler of such a server
  answers a readable request with 204 after sending it nowhere.
\<close>

theorem empty_endpoints_are_served:
  assumes "cfg_Endpoints config = []"
  shows "ListenAndServe parse env config addr dataDir w =
           (case (if dir_missing env then mkdir_error env else None) of
              Some err \<Rightarrow> Fatal err
            | None \<Rightarrow>
               (case listen_error env of
                  Some err \<Rightarrow> Fatal err
                | None \<Rightarrow> Serving \<lparr>Endpoints = []\<rparr> [] w)) \<and>
         (ReadFile filename = Inr data \<and> Unmarshal data = Inr config \<longrightarrow>
            ParseConfig ReadFile Unmarshal filename = Inr config) \<and>
         (snd (in_ReadAll req) = None \<longrightarrow>
            HandleRequest ready \<lparr>Endpoints = []\<rparr> req w' =
              Replied 204 [] (w'\<lparr>requests := requests w' + 1\<rparr>))"
proof (intro conjI)
  show "ListenAndServe parse env config addr dataDir w =
           (case (if dir_missing env then mkdir_error env else None) of
              Some err \<Rightarrow> Fatal err
            | None \<Rightarrow>
               (case listen_error env of
                  Some err \<Rightarrow> Fatal err
                | None \<Rightarrow> Serving \<lparr>Endpoints = []\<rparr> [] w))"
    unfolding ListenAndServe_unfold assms by (simp split: option.splits)
  show "ReadFile filename = Inr data \<and> Unmarshal data = Inr config \<longrightarrow>
            ParseConfig ReadFile Unmarshal filename = Inr config"
    by (simp add: ParseConfig_def)
  show "snd (in_ReadAll req) = None \<longrightarrow>
            HandleRequest ready \<lparr>Endpoints = []\<rparr> req w' =
              Replied 204 [] (w'\<lparr>requests := requests w' + 1\<rparr>)"
    by (cases "in_ReadAll req") (simp add: HandleRequest_def Let_def)
qed

theorem empty_endpoints_are_served_witness:
  "cfg_Endpoints cfg_empty = [] \<and>
   ListenAndServe ParseRequestURI_front env_ok cfg_empty '':8080'' ''data'' world_init =
     Serving \<lparr>Endpoints = []\<rparr> [] world_init \<and>
   ListenAndServe ParseRequestURI_front env_no_dir cfg_empty '':8080'' ''data'' world_init =
     Fatal ''mkdir data: permission denied'' \<and>
   snd (in_ReadAll post_hello) = None \<and>
   HandleRequest never_ready \<lparr>Endpoints = []\<rparr> post_hello world_init =
     Replied 204 [] (world_init\<lparr>requests := 1\<rparr>)"
proof -
  have e: "cfg_Endpoints cfg_empty = []" by (simp add: cfg_empty_def)
  have o: "snd (in_ReadAll post_hello) = None" by (simp add: post_hello_def)
  have r: "requests world_init + 1 = 1" by (simp add: world_init_def)
  from empty_endpoints_are_served [OF e, of ParseRequestURI_front env_ok "'':8080''" "''data''"
          world_init _ _ _ _ post_hello never_ready world_init]
       empty_endpoints_are_served [OF e, of ParseRequestURI_front env_no_dir "'':8080''" "''data''"
          world_init]
       e o r
  show ?thesis by (simp add: env_ok_def env_no_dir_def)
qed

subsection \<open>Round-robin and host validation\<close>

text \<open>The endpoint of the round-robin scenario, as startup builds it from \<open>cfg_rr\<close>
  (three hosts, one worker), and the host a counter of zero selects.\<close>

lemma startup_round_robin:
  "(case ListenAndServe ParseRequestURI_front env_ok cfg_rr '':8080'' ''data'' world_init of
      Serving h ps w \<Rightarrow> Endpoints h = [endpoint_rr] \<and> map p_Workers ps = [1] \<and> w = world_one
    | Fatal m \<Rightarrow> False
    | Crashed m \<Rightarrow> False)"
  by (simp add: ListenAndServe_unfold Let_def env_ok_def world_init_def make_chan_def
        isValidURL_def ParseRequestURI_front_def getScheme_def is_letter_def
        is_scheme_punct_def stringContainsCTLByte_def ToLower_def Second_def
        cfg_rr_def endpoint_rr_def world_one_def)

lemma pick_host_zero:
  "hosts \<noteq> [] \<Longrightarrow> pick_host hosts 0 = Inr (hosts ! 0)"
  by (simp add: pick_host_def go_rem_def go_div_def)

text \<open>A host that parses with a scheme other than \<open>http\<close> and \<open>https\<close> ends startup with
  the message that names the endpoint and the host.\<close>

lemma wrong_scheme_is_fatal:
  "check_hosts ParseRequestURI_front ''a'' [''http://127.0.0.1:18080'', ''ftp://example.com''] =
     Some (Fatal ''(a) [ftp://example.com] is not a valid endpoint url'')"
  by (simp add: isValidURL_def ParseRequestURI_front_def getScheme_def is_letter_def
        is_scheme_punct_def stringContainsCTLByte_def ToLower_def)

text \<open>
  Claim C1 on the code: a single worker of an endpoint with the three hosts \<open>h1\<close>, \<open>h2\<close>,
  \<open>h3\<close> is given nine records, each answered 200. \<open>count\<close> stays at zero, so all nine
  requests go to \<open>h1\<close> and none to \<open>h2\<close> or \<open>h3\<close>, where the claim has three each.
\<close>

theorem nine_dispatches_reach_one_host:
  "map pr_URL (dispatched (world_of
      (HTTPWorker NewRequest_ok always_ready endpoint_rr (replicate 9 ok_delivery) world_one))) =
     replicate 9 ''http://h1/ingest'' \<and>
   count_list (map pr_URL (dispatched (world_of
      (HTTPWorker NewRequest_ok always_ready endpoint_rr (replicate 9 ok_delivery) world_one))))
     ''http://h2/ingest'' = 0"
  by (simp add: HTTPWorker_def HTTPWorker_body_def pick_host_def go_rem_def go_div_def Let_def
        NewRequest_ok_def endpoint_rr_def ok_delivery_def post_x_def world_one_def
        world_init_def numeral_eq_Suc)

text \<open>
  Claim C2 on the code: the host \<open>example.com\<close> (no scheme) does not parse as a request
  URI, the parser returns a nil URL with its error, and \<open>isValidURL\<close> panics on
  \<open>url.Scheme\<close> before it looks at the error; startup ends in that panic, not in the
  fatal message that names the endpoint and the host.
\<close>

theorem unparsable_host_panics:
  "ParseRequestURI_front ''example.com'' = (None, Some ''invalid URI for request'') \<and>
   isValidURL ParseRequestURI_front ''example.com'' =
     Inl ''runtime error: invalid memory address or nil pointer dereference'' \<and>
   ListenAndServe ParseRequestURI_front env_ok cfg_bad '':8080'' ''data'' world_init =
     Crashed ''runtime error: invalid memory address or nil pointer dereference''"
  by (simp add: ListenAndServe_unfold Let_def env_ok_def world_init_def make_chan_def
        isValidURL_def ParseRequestURI_front_def getScheme_def is_letter_def
        is_scheme_punct_def stringContainsCTLByte_def ToLower_def Second_def
        cfg_bad_def)

end
